theory Spec2Isabelle
  imports Complex_Main "HOL-Library.Product_Lexorder" "HOL-Library.Multiset"
begin

section \<open>Floating-point values with the IEEE special values\<close>

text \<open>
  pandas and numpy compute on 64-bit floats. The finite values are modelled as exact
  reals (rounding is not modelled); the special values are kept, since the code relies on
  them: a division by zero does not raise but yields an infinity or NaN, and every ordered
  comparison with NaN is false. Signed zeros are not distinguished.
\<close>

datatype fl = Fin real | PInf | NInf | NaN

fun fneg :: "fl \<Rightarrow> fl" where
  "fneg (Fin a) = Fin (- a)"
| "fneg PInf = NInf"
| "fneg NInf = PInf"
| "fneg NaN = NaN"

fun fadd :: "fl \<Rightarrow> fl \<Rightarrow> fl" where
  "fadd NaN _ = NaN"
| "fadd _ NaN = NaN"
| "fadd (Fin a) (Fin b) = Fin (a + b)"
| "fadd PInf NInf = NaN"
| "fadd NInf PInf = NaN"
| "fadd PInf _ = PInf"
| "fadd NInf _ = NInf"
| "fadd (Fin a) PInf = PInf"
| "fadd (Fin a) NInf = NInf"

definition fsub :: "fl \<Rightarrow> fl \<Rightarrow> fl" where
  "fsub a b = fadd a (fneg b)"

text \<open>The sign of a value: \<open>-1\<close>, \<open>0\<close> or \<open>1\<close> (NaN has none and is handled before).\<close>

fun fsgn :: "fl \<Rightarrow> int" where
  "fsgn (Fin a) = (if a < 0 then -1 else if a = 0 then 0 else 1)"
| "fsgn PInf = 1"
| "fsgn NInf = -1"
| "fsgn NaN = 0"

definition inf_of_sign :: "int \<Rightarrow> fl" where
  "inf_of_sign s = (if s = 0 then NaN else if s < 0 then NInf else PInf)"


fun fdiv :: "fl \<Rightarrow> fl \<Rightarrow> fl" where
  "fdiv NaN _ = NaN"
| "fdiv _ NaN = NaN"
| "fdiv (Fin a) (Fin b) = (if b = 0 then inf_of_sign (fsgn (Fin a)) else Fin (a / b))"
| "fdiv (Fin a) _ = Fin 0"
| "fdiv a (Fin b) = (if b < 0 then fneg a else a)"
| "fdiv _ _ = NaN"

fun fabs :: "fl \<Rightarrow> fl" where
  "fabs (Fin a) = Fin \<bar>a\<bar>"
| "fabs PInf = PInf"
| "fabs NInf = PInf"
| "fabs NaN = NaN"


text \<open>Strict comparison \<open>a < b\<close>; false as soon as one side is NaN.\<close>

fun flt :: "fl \<Rightarrow> fl \<Rightarrow> bool" where
  "flt NaN _ = False"
| "flt _ NaN = False"
| "flt (Fin a) (Fin b) = (a < b)"
| "flt PInf _ = False"
| "flt _ PInf = True"
| "flt NInf _ = True"
| "flt _ NInf = False"

definition fgt :: "fl \<Rightarrow> fl \<Rightarrow> bool" where
  "fgt a b = flt b a"

section \<open>Series statistics of pandas\<close>

text \<open>Reductions skip missing values (\<open>skipna=True\<close>, the default).\<close>

definition dropna :: "fl list \<Rightarrow> fl list" where
  "dropna xs = filter (\<lambda>x. x \<noteq> NaN) xs"

primrec fsum :: "fl list \<Rightarrow> fl" where
  "fsum [] = Fin 0"
| "fsum (x # xs) = fadd x (fsum xs)"

text \<open>\<open>Series.mean()\<close>: NaN on a series without observations.\<close>

definition series_mean :: "fl list \<Rightarrow> fl" where
  "series_mean xs =
     (let obs = dropna xs
      in if obs = [] then NaN else fdiv (fsum obs) (Fin (real (length obs))))"





section \<open>Data frames\<close>

text \<open>
  A data frame is a sequence of named, typed columns. Three dtypes are modelled: numeric
  (the ones \<open>select_dtypes(include=[np.number])\<close> keeps), object (text) and datetime
  (a timestamp in nanoseconds, \<open>None\<close> for NaT).
\<close>

type_synonym timestamp = "int option"

datatype column = NumCol "fl list" | ObjCol "string list" | DateCol "timestamp list"

datatype cell = NumCell fl | ObjCell string | DateCell timestamp

type_synonym dataframe = "(string \<times> column) list"

fun col_cells :: "column \<Rightarrow> cell list" where
  "col_cells (NumCol xs) = map NumCell xs"
| "col_cells (ObjCol xs) = map ObjCell xs"
| "col_cells (DateCol xs) = map DateCell xs"

definition df_nrows :: "dataframe \<Rightarrow> nat" where
  "df_nrows df = (case df of [] \<Rightarrow> 0 | (_, c) # _ \<Rightarrow> length (col_cells c))"

definition df_rows :: "dataframe \<Rightarrow> cell list list" where
  "df_rows df = map (\<lambda>i. map (\<lambda>(_, c). col_cells c ! i) df) [0..<df_nrows df]"

text \<open>Every column has the frame's row count, and no column name repeats.\<close>

definition wf_df :: "dataframe \<Rightarrow> bool" where
  "wf_df df \<longleftrightarrow>
     distinct (map fst df) \<and> list_all (\<lambda>(_, c). length (col_cells c) = df_nrows df) df"

text \<open>\<open>df.select_dtypes(include=[np.number])\<close>: the numeric columns, in frame order.\<close>

fun numeric_columns :: "dataframe \<Rightarrow> (string \<times> fl list) list" where
  "numeric_columns [] = []"
| "numeric_columns ((n, NumCol xs) # df) = (n, xs) # numeric_columns df"
| "numeric_columns (_ # df) = numeric_columns df"

definition select_dtypes_number :: "dataframe \<Rightarrow> string list" where
  "select_dtypes_number df = map fst (numeric_columns df)"

section \<open>sanity\_checker.py\<close>

subsection \<open>detect\_duplicates\<close>

text \<open>
  \<open>duplicated()\<close> with the default \<open>keep='first'\<close> walks the entries in order with a
  table of the entries seen so far: an entry already in the table is marked, a new one
  is added to the table.
\<close>

fun duplicated_from :: "'a list \<Rightarrow> 'a list \<Rightarrow> bool list" where
  "duplicated_from seen [] = []"
| "duplicated_from seen (r # rs) = (r \<in> set seen) # duplicated_from (r # seen) rs"

definition duplicated :: "'a list \<Rightarrow> bool list" where
  "duplicated rs = duplicated_from [] rs"

text \<open>\<open>.sum()\<close> of a boolean series counts its true entries.\<close>

definition bool_sum :: "bool list \<Rightarrow> nat" where
  "bool_sum bs = length (filter id bs)"

record duplicates =
  duplicate_rows :: nat
  duplicate_columns :: nat

definition detect_duplicates :: "dataframe \<Rightarrow> duplicates" where
  "detect_duplicates df =
     \<lparr> duplicate_rows = bool_sum (duplicated (df_rows df)),
       duplicate_columns = bool_sum (duplicated (map fst df)) \<rparr>"

text \<open>The specification's count: the rows identical to some earlier row.\<close>

definition earlier_identical_count :: "'a list \<Rightarrow> nat" where
  "earlier_identical_count rs =
     length (filter (\<lambda>i. \<exists>j \<in> set [0..<i]. rs ! j = rs ! i) [0..<length rs])"

definition people_df :: dataframe where
  "people_df =
     [(''name'', ObjCol [''Alice'', ''Bob'', ''Alice'', ''Charlie'']),
      (''age'', NumCol [Fin 25, Fin 30, Fin 25, Fin 35])]"

subsection \<open>detect\_outliers\<close>









section \<open>anomaly\_detection.py\<close>

text \<open>
  An exception that leaves a function is a value \<open>Inl e\<close>; a normal return is \<open>Inr v\<close>.
  Both detection functions return a pair \<open>(result, error)\<close>, one side of which is
  \<open>None\<close>.
\<close>

datatype exn =
    UnboundLocalError string
  | ValueError string
  | KeyError string
  | TypeError string
  | DataError string
  | LibraryError string

subsection \<open>detect\_anomalies\<close>

text \<open>
  scikit-learn is not part of the repository: the calls the function makes are taken as
  parameters, each of which may raise. \<open>'k\<close> stands for the keyword arguments handed
  through, \<open>'m\<close> for an estimator object and \<open>'s\<close> for a fitted scaler.
  \<open>fit_predict\<close> returns the estimator it has fitted together with the labels.
\<close>

type_synonym matrix = "fl list list"

record ('k, 'm, 's) sklearn =
  scaler_fit_transform :: "matrix \<Rightarrow> exn + 's \<times> matrix"
  isolation_forest :: "real \<Rightarrow> 'k \<Rightarrow> exn + 'm"
  one_class_svm :: "real \<Rightarrow> 'k \<Rightarrow> exn + 'm"
  local_outlier_factor :: "real \<Rightarrow> 'k \<Rightarrow> exn + 'm"
  predict :: "'m \<Rightarrow> matrix \<Rightarrow> exn + int list"
  decision_function :: "'m \<Rightarrow> matrix \<Rightarrow> exn + fl list"
  fit_predict :: "'m \<Rightarrow> matrix \<Rightarrow> exn + 'm \<times> int list"
  negative_outlier_factor :: "'m \<Rightarrow> exn + fl list"

record ('m, 's) anomaly_result =
  predictions :: "int list"
  anomalies :: "bool list"
  scores :: "fl list"
  model :: 'm
  scaler :: 's
  numeric_cols :: "string list"

text \<open>\<open>df[numeric_cols].values\<close>: one row of numbers per row of the frame.\<close>

definition df_values :: "dataframe \<Rightarrow> matrix" where
  "df_values df = map (\<lambda>i. map (\<lambda>(_, xs). xs ! i) (numeric_columns df)) [0..<df_nrows df]"

text \<open>
  The \<open>if\<close>/\<open>elif\<close> chain on the algorithm name. It has no \<open>else\<close>: with any other
  name the three locals stay unbound, which is the result \<open>None\<close> here.
\<close>

definition run_model ::
  "('k, 'm, 's) sklearn \<Rightarrow> string \<Rightarrow> real \<Rightarrow> 'k \<Rightarrow> matrix \<Rightarrow>
     exn + ('m \<times> int list \<times> fl list) option" where
  "run_model sk algorithm contamination kwargs X_scaled =
     (if algorithm = ''Isolation Forest'' then
        (case isolation_forest sk contamination kwargs of
           Inl e \<Rightarrow> Inl e
         | Inr m \<Rightarrow>
             (case predict sk m X_scaled of
                Inl e \<Rightarrow> Inl e
              | Inr ps \<Rightarrow>
                  (case decision_function sk m X_scaled of
                     Inl e \<Rightarrow> Inl e
                   | Inr sc \<Rightarrow> Inr (Some (m, ps, sc)))))
      else if algorithm = ''One-Class SVM'' then
        (case one_class_svm sk contamination kwargs of
           Inl e \<Rightarrow> Inl e
         | Inr m \<Rightarrow>
             (case predict sk m X_scaled of
                Inl e \<Rightarrow> Inl e
              | Inr ps \<Rightarrow>
                  (case decision_function sk m X_scaled of
                     Inl e \<Rightarrow> Inl e
                   | Inr sc \<Rightarrow> Inr (Some (m, ps, sc)))))
      else if algorithm = ''Local Outlier Factor'' then
        (case local_outlier_factor sk contamination kwargs of
           Inl e \<Rightarrow> Inl e
         | Inr m \<Rightarrow>
             (case fit_predict sk m X_scaled of
                Inl e \<Rightarrow> Inl e
              | Inr (m', ps) \<Rightarrow>
                  (case negative_outlier_factor sk m' of
                     Inl e \<Rightarrow> Inl e
                   | Inr sc \<Rightarrow> Inr (Some (m', ps, sc)))))
      else Inr None)"

definition detect_anomalies ::
  "('k, 'm, 's) sklearn \<Rightarrow> dataframe \<Rightarrow> string \<Rightarrow> real \<Rightarrow> 'k \<Rightarrow>
     exn + (('m, 's) anomaly_result option \<times> string option)" where
  "detect_anomalies sk df algorithm contamination kwargs =
     (let cols = select_dtypes_number df
      in if length cols = 0
         then Inr (None, Some ''No numeric columns found for anomaly detection'')
         else
           (case scaler_fit_transform sk (df_values df) of
              Inl e \<Rightarrow> Inl e
            | Inr (sc, X_scaled) \<Rightarrow>
                (case run_model sk algorithm contamination kwargs X_scaled of
                   Inl e \<Rightarrow> Inl e
                 | Inr None \<Rightarrow> Inl (UnboundLocalError ''predictions'')
                 | Inr (Some (m, ps, ss)) \<Rightarrow>
                     Inr (Some \<lparr> predictions = ps,
                                 anomalies = map (\<lambda>p. p = - 1) ps,
                                 scores = ss,
                                 model = m,
                                 scaler = sc,
                                 numeric_cols = cols \<rparr>, None))))"

text \<open>
  A library instance for evaluating the function. It follows scikit-learn in what the
  control flow depends on: an estimator is built without any check of its parameters;
  \<open>predict\<close> and \<open>decision_function\<close> refuse an estimator that was never fitted;
  \<open>fit_predict\<close> accepts a contamination in \<open>(0, 0.5]\<close> only. The numbers are
  placeholders: scaling leaves the matrix as it is, every row is labelled normal. An
  estimator is its name, its contamination and, once fitted, its scores.
\<close>

type_synonym estimator = "string \<times> real \<times> fl list option"

definition sk_like :: "(unit, estimator, unit) sklearn" where
  "sk_like =
     \<lparr> scaler_fit_transform = (\<lambda>X. Inr ((), X)),
       isolation_forest = (\<lambda>c _. Inr (''IsolationForest'', c, None)),
       one_class_svm = (\<lambda>c _. Inr (''OneClassSVM'', c, None)),
       local_outlier_factor = (\<lambda>c _. Inr (''LocalOutlierFactor'', c, None)),
       predict = (\<lambda>m X. case snd (snd m) of
                     None \<Rightarrow> Inl (LibraryError ''NotFittedError'')
                   | Some _ \<Rightarrow> Inr (map (\<lambda>_. 1) X)),
       decision_function = (\<lambda>m X. case snd (snd m) of
                     None \<Rightarrow> Inl (LibraryError ''NotFittedError'')
                   | Some sc \<Rightarrow> Inr sc),
       fit_predict = (\<lambda>m X. if 0 < fst (snd m) \<and> fst (snd m) \<le> 1 / 2
                     then Inr ((fst m, fst (snd m), Some (map (\<lambda>_. Fin (- 1)) X)),
                               map (\<lambda>_. 1) X)
                     else Inl (LibraryError ''InvalidParameterError'')),
       negative_outlier_factor = (\<lambda>m. case snd (snd m) of
                     None \<Rightarrow> Inl (LibraryError ''AttributeError'')
                   | Some sc \<Rightarrow> Inr sc) \<rparr>"

definition text_df :: dataframe where
  "text_df = [(''text'', ObjCol [''a'', ''b'', ''c''])]"

definition feature_df :: dataframe where
  "feature_df = [(''feature1'', NumCol [Fin 1, Fin 2, Fin 9])]"

text \<open>The three algorithm names the function knows.\<close>

definition supported_algorithm :: "string \<Rightarrow> bool" where
  "supported_algorithm a \<longleftrightarrow>
     a = ''Isolation Forest'' \<or> a = ''One-Class SVM'' \<or> a = ''Local Outlier Factor''"

subsection \<open>explain\_anomalies\<close>




subsection \<open>detect\_time\_series\_anomalies\<close>

text \<open>
  \<open>rolling(window=w)\<close> looks, at each position, at the last \<open>w\<close> values up to and
  including the current one, treats infinities as missing, and needs \<open>w\<close> observations
  (\<open>min_periods\<close> defaults to the window size): the mean needs at least one besides,
  the sample standard deviation at least two.
\<close>

definition window_at :: "nat \<Rightarrow> 'a list \<Rightarrow> nat \<Rightarrow> 'a list" where
  "window_at w xs i = drop (i + 1 - w) (take (i + 1) xs)"

fun finite_obs :: "fl list \<Rightarrow> real list" where
  "finite_obs [] = []"
| "finite_obs (Fin a # xs) = a # finite_obs xs"
| "finite_obs (_ # xs) = finite_obs xs"

definition rolling_mean :: "nat \<Rightarrow> fl list \<Rightarrow> fl list" where
  "rolling_mean w xs =
     map (\<lambda>i. let obs = finite_obs (window_at w xs i); nobs = length obs
              in if w \<le> nobs \<and> 0 < nobs then Fin (sum_list obs / real nobs) else NaN)
         [0..<length xs]"

definition rolling_std :: "nat \<Rightarrow> fl list \<Rightarrow> fl list" where
  "rolling_std w xs =
     map (\<lambda>i. let obs = finite_obs (window_at w xs i); nobs = length obs
              in if w \<le> nobs \<and> 1 < nobs
                 then let avg = sum_list obs / real nobs
                      in Fin (sqrt (sum_list (map (\<lambda>x. (x - avg) * (x - avg)) obs)
                                      / real (nobs - 1)))
                 else NaN)
         [0..<length xs]"

text \<open>\<open>(value - rolling_mean) / rolling_std\<close>, position by position.\<close>

definition z_score :: "fl list \<Rightarrow> fl list \<Rightarrow> fl list \<Rightarrow> fl list" where
  "z_score v rm rs = map (\<lambda>(x, m, s). fdiv (fsub x m) s) (zip v (zip rm rs))"

text \<open>
  A row of the working copy: its index label (the position in the input), its time and
  its value. pandas' datetime parsing and its sorting routine are parameters;
  \<open>sort_values(time_col)\<close> is called with the default \<open>kind='quicksort'\<close>.
\<close>

type_synonym ts_row = "nat \<times> timestamp \<times> fl"

record pandas =
  to_datetime :: "column \<Rightarrow> exn + timestamp list"
  sort_values :: "ts_row list \<Rightarrow> ts_row list"

record ts_result =
  ts_anomalies :: "(nat \<times> bool) list"
  z_scores :: "(nat \<times> fl) list"
  ts_rolling_mean :: "(nat \<times> fl) list"
  ts_rolling_std :: "(nat \<times> fl) list"

text \<open>\<open>df_ts[time_col] = ...\<close> replaces the column in place.\<close>

definition set_column :: "string \<Rightarrow> column \<Rightarrow> dataframe \<Rightarrow> dataframe" where
  "set_column col c df = map (\<lambda>(n, old). if n = col then (n, c) else (n, old)) df"

text \<open>\<open>df[col]\<close> for a column that is there (the caller has checked it).\<close>

definition df_column :: "dataframe \<Rightarrow> string \<Rightarrow> column" where
  "df_column df col = (case map_of df col of Some c \<Rightarrow> c | None \<Rightarrow> ObjCol [])"

definition ts_rows :: "timestamp list \<Rightarrow> fl list \<Rightarrow> ts_row list" where
  "ts_rows stamps vals = zip [0..<length vals] (zip stamps vals)"

definition detect_time_series_anomalies ::
  "pandas \<Rightarrow> dataframe \<Rightarrow> string \<Rightarrow> string \<Rightarrow> int \<Rightarrow> real \<Rightarrow>
     exn + (ts_result option \<times> string option)" where
  "detect_time_series_anomalies pd df time_col value_col window threshold =
     (if time_col \<notin> set (map fst df) \<or> value_col \<notin> set (map fst df)
      then Inr (None, Some ''Time or value column not found'')
      else
        (case to_datetime pd (df_column df time_col) of
           Inl e \<Rightarrow> Inl e
         | Inr stamps \<Rightarrow>
             (let df_ts = set_column time_col (DateCol stamps) df
              in if window < 0 then Inl (ValueError ''window must be an integer 0 or greater'')
                 else
                   (case map_of df_ts value_col of
                      Some (NumCol vals) \<Rightarrow>
                        (let sorted_rows = sort_values pd (ts_rows stamps vals);
                             idx = map fst sorted_rows;
                             v = map (\<lambda>r. snd (snd r)) sorted_rows;
                             rm = rolling_mean (nat window) v;
                             rs = rolling_std (nat window) v;
                             z = z_score v rm rs
                         in Inr (Some \<lparr> ts_anomalies =
                                           zip idx (map (\<lambda>a. fgt (fabs a) (Fin threshold)) z),
                                         z_scores = zip idx z,
                                         ts_rolling_mean = zip idx rm,
                                         ts_rolling_std = zip idx rs \<rparr>, None))
                    | _ \<Rightarrow> Inl (DataError ''No numeric types to aggregate'')))))"

text \<open>The order of time stamps; NaT sorts last (\<open>na_position='last'\<close>).\<close>

fun time_key :: "timestamp \<Rightarrow> nat \<times> int" where
  "time_key None = (1, 0)"
| "time_key (Some t) = (0, t)"

definition row_time :: "ts_row \<Rightarrow> timestamp" where
  "row_time r = fst (snd r)"

text \<open>What the library promises of \<open>sort_values\<close>: the same rows, ascending by time.\<close>

definition ascending_by_time :: "ts_row list \<Rightarrow> ts_row list \<Rightarrow> bool" where
  "ascending_by_time rows out \<longleftrightarrow>
     mset out = mset rows \<and> sorted (map (\<lambda>r. time_key (row_time r)) out)"

text \<open>
  Two library instances for evaluating the function, both reading a datetime column as
  it is. The first sorts with a stable insertion sort; the second sorts the reversed
  sequence, which is ascending by time as well and lists equal times in reverse.
\<close>

definition read_datetime :: "column \<Rightarrow> exn + timestamp list" where
  "read_datetime c = (case c of DateCol ts \<Rightarrow> Inr ts | _ \<Rightarrow> Inl (LibraryError ''to_datetime''))"

definition pd_stable :: pandas where
  "pd_stable = \<lparr> to_datetime = read_datetime,
                 sort_values = sort_key (\<lambda>r. time_key (row_time r)) \<rparr>"


definition sorts_ascending :: "pandas \<Rightarrow> bool" where
  "sorts_ascending pd \<longleftrightarrow> (\<forall>rows. ascending_by_time rows (sort_values pd rows))"

text \<open>
  A usable input: a well-formed frame with a time column that pandas reads, one stamp
  per row, and a numeric value column other than the time column.
\<close>

definition ts_input ::
  "pandas \<Rightarrow> dataframe \<Rightarrow> string \<Rightarrow> string \<Rightarrow> timestamp list \<Rightarrow> fl list \<Rightarrow> bool" where
  "ts_input pd df time_col value_col stamps vals \<longleftrightarrow>
     wf_df df \<and> time_col \<in> set (map fst df) \<and> value_col \<noteq> time_col \<and>
     map_of df value_col = Some (NumCol vals) \<and>
     to_datetime pd (df_column df time_col) = Inr stamps \<and>
     length stamps = df_nrows df"

definition series_df :: dataframe where
  "series_df =
     [(''date'', DateCol [Some 3, Some 1, Some 2]),
      (''value'', NumCol [Fin 6, Fin 0, Fin 3])]"



text \<open>The results of two runs on \<open>series_df\<close>: window 3 with threshold 1/2, and window 1.\<close>

definition series_result :: ts_result where
  "series_result =
     \<lparr> ts_anomalies = [(1, False), (2, False), (0, True)],
       z_scores = [(1, NaN), (2, NaN), (0, Fin 1)],
       ts_rolling_mean = [(1, NaN), (2, NaN), (0, Fin 3)],
       ts_rolling_std = [(1, NaN), (2, NaN), (0, Fin 3)] \<rparr>"

definition window1_result :: ts_result where
  "window1_result =
     \<lparr> ts_anomalies = [(1, False), (2, False), (0, False)],
       z_scores = [(1, NaN), (2, NaN), (0, NaN)],
       ts_rolling_mean = [(1, Fin 0), (2, Fin 3), (0, Fin 6)],
       ts_rolling_std = [(1, NaN), (2, NaN), (0, NaN)] \<rparr>"

section \<open>Properties of detect\_duplicates\<close>

lemma duplicated_from_length [simp]: "length (duplicated_from seen rs) = length rs"
  by (induction rs arbitrary: seen) simp_all

lemma duplicated_from_nth:
  "i < length rs \<Longrightarrow> duplicated_from seen rs ! i = (rs ! i \<in> set seen \<union> set (take i rs))"
proof (induction rs arbitrary: seen i)
  case Nil
  then show ?case by simp
next
  case (Cons r rs)
  show ?case
  proof (cases i)
    case 0
    then show ?thesis by simp
  next
    case (Suc k)
    with Cons.prems have "k < length rs" by simp
    from Cons.IH [OF this, of "r # seen"] Suc show ?thesis by auto
  qed
qed

lemma in_take_iff_earlier:
  assumes "i < length rs" shows "(rs ! i \<in> set (take i rs)) = (\<exists>j \<in> set [0..<i]. rs ! j = rs ! i)"
proof
  assume "rs ! i \<in> set (take i rs)"
  then obtain j where "j < length (take i rs)" "take i rs ! j = rs ! i"
    by (auto simp: in_set_conv_nth)
  then have "j < i" "rs ! j = rs ! i" by simp_all
  then show "\<exists>j \<in> set [0..<i]. rs ! j = rs ! i" by auto
next
  assume "\<exists>j \<in> set [0..<i]. rs ! j = rs ! i"
  then obtain j where j: "j < i" "rs ! j = rs ! i" by auto
  note a = assms
  from j a have "take i rs ! j = rs ! i" "j < length (take i rs)" by simp_all
  then show "rs ! i \<in> set (take i rs)" by (metis nth_mem)
qed

lemma bool_sum_card: "bool_sum bs = card {i. i < length bs \<and> bs ! i}"
  by (simp add: bool_sum_def length_filter_conv_card)

lemma length_filter_upt_card: "length (filter Q [0..<n]) = card {i. i < n \<and> Q i}"
proof -
  have "distinct (filter Q [0..<n])" by simp
  then have "length (filter Q [0..<n]) = card (set (filter Q [0..<n]))"
    by (rule distinct_card [symmetric])
  also have "set (filter Q [0..<n]) = {i. i < n \<and> Q i}" by auto
  finally show ?thesis .
qed

lemma duplicated_count: "bool_sum (duplicated rs) = earlier_identical_count rs"
proof -
  have "{i. i < length (duplicated rs) \<and> duplicated rs ! i}
        = {i. i < length rs \<and> (\<exists>j \<in> set [0..<i]. rs ! j = rs ! i)}"
    using in_take_iff_earlier [of _ rs]
    by (auto simp: duplicated_def duplicated_from_nth simp del: set_upt)
  then show ?thesis
    by (simp add: bool_sum_card earlier_identical_count_def length_filter_upt_card del: set_upt)
qed

lemma people_rows: "df_rows people_df =
   [[ObjCell ''Alice'', NumCell (Fin 25)], [ObjCell ''Bob'', NumCell (Fin 30)],
    [ObjCell ''Alice'', NumCell (Fin 25)], [ObjCell ''Charlie'', NumCell (Fin 35)]]"
  by (simp add: df_rows_def people_df_def df_nrows_def upt_rec [of _ "numeral _"] upt_rec [of 0])

text \<open>
  Claim C9. The duplicate-row count of \<open>detect_duplicates\<close> is the number of rows
  that are identical to some earlier row, a first occurrence not being counted; on the
  four rows Alice/25, Bob/30, Alice/25, Charlie/35 it is 1.
\<close>

theorem detect_duplicates_counts_later_copies:
  "duplicate_rows (detect_duplicates df) = earlier_identical_count (df_rows df)
   \<and> duplicate_rows (detect_duplicates people_df) = 1"
proof
  show "duplicate_rows (detect_duplicates df) = earlier_identical_count (df_rows df)"
    by (simp add: detect_duplicates_def duplicated_count)
  show "duplicate_rows (detect_duplicates people_df) = 1"
    by (simp add: detect_duplicates_def people_rows duplicated_def bool_sum_def)
qed

section \<open>Properties of detect\_outliers\<close>

subsection \<open>Special values\<close>

lemma fadd_NaN_right [simp]: "fadd x NaN = NaN"
  by (cases x) simp_all

lemma fsub_NaN [simp]: "fsub NaN x = NaN" "fsub x NaN = NaN"
  by (simp_all add: fsub_def)

lemma flt_NaN_right [simp]: "flt x NaN = False"
  by (cases x) simp_all

lemma fgt_NaN [simp]: "fgt NaN x = False"
  by (simp add: fgt_def)

lemma fdiv_NaN_right [simp]: "fdiv x NaN = NaN"
  by (cases x) simp_all

lemma series_mean_Nil [simp]: "series_mean [] = NaN"
  by (simp add: series_mean_def dropna_def)


subsection \<open>The dictionary the loop builds\<close>








subsection \<open>A constant column\<close>











subsection \<open>Adding a constant\<close>




















section \<open>Properties of detect\_anomalies\<close>

text \<open>
  Claim C1. On a dataset without numeric columns \<open>detect_anomalies\<close> produces no result:
  it returns the error value that says no numeric columns were found, whatever the
  algorithm, the contamination and the library.
\<close>

theorem detect_anomalies_no_numeric:
  "select_dtypes_number df = [] \<Longrightarrow>
   detect_anomalies sk df algorithm contamination kwargs
     = Inr (None, Some ''No numeric columns found for anomaly detection'')"
  by (simp add: detect_anomalies_def)

theorem detect_anomalies_no_numeric_witness:
  "select_dtypes_number text_df = [] \<and>
   detect_anomalies sk_like text_df ''One-Class SVM'' (1 / 10) ()
     = Inr (None, Some ''No numeric columns found for anomaly detection'')"
  using detect_anomalies_no_numeric [of text_df sk_like "''One-Class SVM''" "1 / 10" "()"]
  by (simp add: select_dtypes_number_def text_df_def)

lemma feature_df_numeric: "select_dtypes_number feature_df = [''feature1'']"
  by (simp add: select_dtypes_number_def feature_df_def)




lemma run_model_unsupported:
  "\<not> supported_algorithm a \<Longrightarrow> run_model sk a c kw X = Inr None"
  by (simp add: run_model_def supported_algorithm_def)

text \<open>
  Claim C10. With at least one numeric column and an algorithm name that is none of the
  three supported ones, \<open>detect_anomalies\<close> returns nothing: it ends in an exception,
  and once the scaling step has gone through, that exception is the unbound local
  \<open>predictions\<close>.
\<close>

theorem detect_anomalies_unknown_algorithm:
  assumes "select_dtypes_number df \<noteq> []" and "\<not> supported_algorithm algorithm"
  shows "(\<exists>e. detect_anomalies sk df algorithm contamination kwargs = Inl e) \<and>
         (\<forall>sc X_scaled. scaler_fit_transform sk (df_values df) = Inr (sc, X_scaled) \<longrightarrow>
            detect_anomalies sk df algorithm contamination kwargs
              = Inl (UnboundLocalError ''predictions''))"
  using assms
  by (auto simp: detect_anomalies_def run_model_unsupported split: sum.splits)

theorem detect_anomalies_unknown_algorithm_witness:
  "select_dtypes_number feature_df \<noteq> [] \<and> \<not> supported_algorithm ''KMeans'' \<and>
   detect_anomalies sk_like feature_df ''KMeans'' (1 / 10) ()
     = Inl (UnboundLocalError ''predictions'')"
proof -
  have a: "select_dtypes_number feature_df \<noteq> []" by (simp add: feature_df_numeric)
  have b: "\<not> supported_algorithm ''KMeans''" by (simp add: supported_algorithm_def)
  have c: "scaler_fit_transform sk_like (df_values feature_df) = Inr ((), df_values feature_df)"
    by (simp add: sk_like_def)
  from detect_anomalies_unknown_algorithm [OF a b, of sk_like "1 / 10" "()"] c a b
  show ?thesis by blast
qed

section \<open>Properties of explain\_anomalies\<close>






section \<open>Properties of detect\_time\_series\_anomalies\<close>

subsection \<open>Rolling statistics\<close>

lemma length_finite_obs: "length (finite_obs xs) \<le> length xs"
  by (induction xs rule: finite_obs.induct) simp_all

lemma length_window_at: "length (window_at w xs i) \<le> min w (i + 1)"
  by (auto simp: window_at_def)

lemma length_rolling_mean [simp]: "length (rolling_mean w xs) = length xs"
  by (simp add: rolling_mean_def)

lemma length_rolling_std [simp]: "length (rolling_std w xs) = length xs"
  by (simp add: rolling_std_def)

lemma rolling_mean_warmup:
  assumes "i < length xs" "i + 1 < w"
  shows "rolling_mean w xs ! i = NaN"
proof -
  have "length (finite_obs (window_at w xs i)) \<le> i + 1"
    using length_finite_obs [of "window_at w xs i"] length_window_at [of w xs i] by simp
  with assms show ?thesis by (simp add: rolling_mean_def Let_def)
qed

lemma rolling_std_single:
  assumes "i < length xs" "w \<le> 1"
  shows "rolling_std w xs ! i = NaN"
proof -
  have "length (finite_obs (window_at w xs i)) \<le> w"
    using length_finite_obs [of "window_at w xs i"] length_window_at [of w xs i] by simp
  with assms show ?thesis by (simp add: rolling_std_def Let_def)
qed

lemma rolling_mean_short:
  assumes "i < length xs" "length xs < w"
  shows "rolling_mean w xs ! i = NaN"
  using assms by (simp add: rolling_mean_warmup)

lemma length_z_score [simp]:
  "length (z_score v (rolling_mean w v) (rolling_std w v)) = length v"
  by (simp add: z_score_def)

lemma z_score_nth:
  "i < length v \<Longrightarrow>
   z_score v (rolling_mean w v) (rolling_std w v) ! i
     = fdiv (fsub (v ! i) (rolling_mean w v ! i)) (rolling_std w v ! i)"
  by (simp add: z_score_def)

lemma z_score_NaN:
  assumes "\<forall>i < length v. rolling_mean w v ! i = NaN \<or> rolling_std w v ! i = NaN"
  shows "\<forall>z \<in> set (z_score v (rolling_mean w v) (rolling_std w v)). z = NaN"
proof
  fix z assume "z \<in> set (z_score v (rolling_mean w v) (rolling_std w v))"
  then obtain i where i: "i < length v" "z = z_score v (rolling_mean w v) (rolling_std w v) ! i"
    by (metis in_set_conv_nth length_z_score)
  then have "z = fdiv (fsub (v ! i) (rolling_mean w v ! i)) (rolling_std w v ! i)"
    by (simp add: z_score_nth)
  with assms i(1) show "z = NaN" by auto
qed

lemma no_flags:
  assumes "\<forall>z \<in> set zs. z = NaN"
  shows "\<forall>p \<in> set (zip idx (map (\<lambda>a. fgt (fabs a) (Fin t)) zs)). \<not> snd p"
proof
  fix p assume "p \<in> set (zip idx (map (\<lambda>a. fgt (fabs a) (Fin t)) zs))"
  then have "snd p \<in> set (map (\<lambda>a. fgt (fabs a) (Fin t)) zs)"
    by (metis in_set_zipE prod.collapse)
  then obtain z where "z \<in> set zs" "snd p = fgt (fabs z) (Fin t)" by auto
  with assms show "\<not> snd p" by auto
qed

subsection \<open>What the function returns\<close>

lemma map_of_set_column_other:
  "vc \<noteq> tc \<Longrightarrow> map_of (set_column tc c df) vc = map_of df vc"
  by (induction df) (auto simp: set_column_def)

lemma wf_df_column_length:
  assumes "wf_df df" "map_of df col = Some c"
  shows "length (col_cells c) = df_nrows df"
proof -
  from assms(2) have "(col, c) \<in> set df" by (rule map_of_SomeD)
  with assms(1) show ?thesis by (auto simp: wf_df_def list_all_iff)
qed

lemma ts_input_length:
  assumes "ts_input pd df time_col value_col stamps vals"
  shows "length vals = df_nrows df" and "length stamps = df_nrows df"
  using assms wf_df_column_length [of df value_col "NumCol vals"]
  by (simp_all add: ts_input_def)

lemma length_ts_rows:
  assumes "ts_input pd df time_col value_col stamps vals"
  shows "length (ts_rows stamps vals) = df_nrows df"
  using ts_input_length [OF assms] by (simp add: ts_rows_def)

text \<open>On a usable input with a window that is not negative the function returns this.\<close>

lemma detect_ts_returns:
  assumes "ts_input pd df time_col value_col stamps vals"
    and "0 \<le> window"
    and "sorted_rows = sort_values pd (ts_rows stamps vals)"
    and "v = map (\<lambda>r. snd (snd r)) sorted_rows"
  shows "detect_time_series_anomalies pd df time_col value_col window threshold
     = Inr (Some \<lparr> ts_anomalies = zip (map fst sorted_rows)
                      (map (\<lambda>a. fgt (fabs a) (Fin threshold))
                        (z_score v (rolling_mean (nat window) v) (rolling_std (nat window) v))),
                    z_scores = zip (map fst sorted_rows)
                        (z_score v (rolling_mean (nat window) v) (rolling_std (nat window) v)),
                    ts_rolling_mean = zip (map fst sorted_rows) (rolling_mean (nat window) v),
                    ts_rolling_std = zip (map fst sorted_rows) (rolling_std (nat window) v) \<rparr>,
            None)"
proof -
  from assms(1) have tc: "time_col \<in> set (map fst df)"
    and ne: "value_col \<noteq> time_col"
    and vc: "map_of df value_col = Some (NumCol vals)"
    and dt: "to_datetime pd (df_column df time_col) = Inr stamps"
    by (simp_all add: ts_input_def)
  from vc have "(value_col, NumCol vals) \<in> set df" by (rule map_of_SomeD)
  then have vc_in: "value_col \<in> set (map fst df)" by force
  from ne vc have "map_of (set_column time_col (DateCol stamps) df) value_col = Some (NumCol vals)"
    by (simp add: map_of_set_column_other)
  with tc vc_in dt assms(2-4) show ?thesis
    by (simp add: detect_time_series_anomalies_def Let_def)
qed

text \<open>
  Claim C2. On a usable input the call with a window of at least 2 returns a result with
  one flag per row, and none of the first \<open>window - 1\<close> rows in time order is flagged,
  whatever their values and whatever the threshold.
\<close>

theorem warmup_rows_not_flagged:
  assumes "ts_input pd df time_col value_col stamps vals" and "2 \<le> window"
  shows "\<exists>res. detect_time_series_anomalies pd df time_col value_col window threshold
                  = Inr (Some res, None) \<and>
               length (ts_anomalies res) = length (sort_values pd (ts_rows stamps vals)) \<and>
               (\<forall>i. i < nat window - 1 \<and> i < length (ts_anomalies res) \<longrightarrow>
                      \<not> snd (ts_anomalies res ! i))"
proof -
  define rows where "rows = sort_values pd (ts_rows stamps vals)"
  define v where "v = map (\<lambda>r. snd (snd r)) rows"
  define z where "z = z_score v (rolling_mean (nat window) v) (rolling_std (nat window) v)"
  define res where "res =
     \<lparr> ts_anomalies = zip (map fst rows) (map (\<lambda>a. fgt (fabs a) (Fin threshold)) z),
       z_scores = zip (map fst rows) z,
       ts_rolling_mean = zip (map fst rows) (rolling_mean (nat window) v),
       ts_rolling_std = zip (map fst rows) (rolling_std (nat window) v) \<rparr>"
  from assms(2) have w: "0 \<le> window" by simp
  have run: "detect_time_series_anomalies pd df time_col value_col window threshold
               = Inr (Some res, None)"
    unfolding res_def z_def by (rule detect_ts_returns [OF assms(1) w rows_def v_def])
  have len: "length (ts_anomalies res) = length rows"
    by (simp add: res_def z_def v_def)
  have "\<not> snd (ts_anomalies res ! i)" if i: "i < nat window - 1" "i < length (ts_anomalies res)" for i
  proof -
    from i(2) len have iv: "i < length v" by (simp add: v_def)
    from i(1) have "i + 1 < nat window" by simp
    with iv have "rolling_mean (nat window) v ! i = NaN" by (rule rolling_mean_warmup)
    with iv have "z ! i = NaN" by (simp add: z_def z_score_nth)
    with iv show ?thesis by (simp add: res_def z_def v_def)
  qed
  with run len show ?thesis unfolding rows_def by blast
qed

lemma sqrt_9: "sqrt 9 = 3"
  by (rule real_sqrt_unique) simp_all

lemma upt_3: "[0..<3] = [0, 1, 2]"
  by (simp add: upt_rec [of _ "numeral _"] upt_rec [of 0])

lemma series_input:
  "ts_input pd_stable series_df ''date'' ''value''
     [Some 3, Some 1, Some 2] [Fin 6, Fin 0, Fin 3]"
  by (simp add: ts_input_def wf_df_def series_df_def df_nrows_def df_column_def
      pd_stable_def read_datetime_def)

lemma series_sorted:
  "sort_values pd_stable (ts_rows [Some 3, Some 1, Some 2] [Fin 6, Fin 0, Fin 3])
     = [(1, Some 1, Fin 0), (2, Some 2, Fin 3), (0, Some 3, Fin 6)]"
  by (simp add: ts_rows_def upt_3 pd_stable_def row_time_def)

lemma rolling_3:
  "rolling_mean 3 [Fin 0, Fin 3, Fin 6] = [NaN, NaN, Fin 3]"
  "rolling_std 3 [Fin 0, Fin 3, Fin 6] = [NaN, NaN, Fin 3]"
  by (simp_all add: rolling_mean_def rolling_std_def upt_3 window_at_def Let_def sqrt_9)

lemma rolling_1:
  "rolling_mean (Suc 0) [Fin 0, Fin 3, Fin 6] = [Fin 0, Fin 3, Fin 6]"
  "rolling_std (Suc 0) [Fin 0, Fin 3, Fin 6] = [NaN, NaN, NaN]"
  by (simp_all add: rolling_mean_def rolling_std_def upt_3 window_at_def Let_def)

lemma series_run:
  "detect_time_series_anomalies pd_stable series_df ''date'' ''value'' 3 (1 / 2)
     = Inr (Some series_result, None)"
  by (simp add: detect_ts_returns [OF series_input _ refl refl]
      series_sorted rolling_3 z_score_def fsub_def fgt_def series_result_def)

theorem warmup_rows_not_flagged_witness:
  "ts_input pd_stable series_df ''date'' ''value''
     [Some 3, Some 1, Some 2] [Fin 6, Fin 0, Fin 3] \<and>
   (2::int) \<le> 3 \<and>
   (\<exists>res. detect_time_series_anomalies pd_stable series_df ''date'' ''value'' 3 (1 / 2)
             = Inr (Some res, None) \<and>
          length (ts_anomalies res)
            = length (sort_values pd_stable
                        (ts_rows [Some 3, Some 1, Some 2] [Fin 6, Fin 0, Fin 3])) \<and>
          (\<forall>i. i < nat 3 - 1 \<and> i < length (ts_anomalies res) \<longrightarrow>
                 \<not> snd (ts_anomalies res ! i))) \<and>
   detect_time_series_anomalies pd_stable series_df ''date'' ''value'' 3 (1 / 2)
     = Inr (Some series_result, None)"
proof -
  have w: "(2::int) \<le> 3" by simp
  from warmup_rows_not_flagged [OF series_input w, of "1 / 2"] series_input series_run
  show ?thesis by simp
qed

subsection \<open>The window is not checked\<close>

text \<open>
  Claim C4, as the specification states it, does not hold: the function has no check of
  the window. With the window 1 the call below returns a result; the deviation of a
  single observation is NaN, so no row is flagged.
\<close>

theorem invalid_window_counterexample:
  "(1::int) < 2 \<and>
   detect_time_series_anomalies pd_stable series_df ''date'' ''value'' 1 2
     = Inr (Some window1_result, None)"
  by (simp add: detect_ts_returns [OF series_input _ refl refl]
      series_sorted rolling_1 z_score_def fsub_def fgt_def window1_result_def)

lemma sorts_ascending_length:
  "sorts_ascending pd \<Longrightarrow> length (sort_values pd rows) = length rows"
  by (metis sorts_ascending_def ascending_by_time_def size_mset)

text \<open>
  Claim C4, amended. On a usable input a window of 0 or 1, or one greater than the row
  count, is no error: the call returns a result in which no row is flagged. A negative
  window ends in the ValueError that pandas' \<open>rolling\<close> raises.
\<close>

theorem window_passed_unchecked:
  assumes "ts_input pd df time_col value_col stamps vals" and "sorts_ascending pd"
  shows "(window < 0 \<longrightarrow>
            detect_time_series_anomalies pd df time_col value_col window threshold
              = Inl (ValueError ''window must be an integer 0 or greater'')) \<and>
         (0 \<le> window \<and> (window < 2 \<or> int (df_nrows df) < window) \<longrightarrow>
            (\<exists>res. detect_time_series_anomalies pd df time_col value_col window threshold
                      = Inr (Some res, None) \<and>
                   (\<forall>p \<in> set (ts_anomalies res). \<not> snd p)))"
proof (intro conjI impI)
  assume neg: "window < 0"
  from assms(1) have "time_col \<in> set (map fst df)" "map_of df value_col = Some (NumCol vals)"
    "to_datetime pd (df_column df time_col) = Inr stamps"
    by (simp_all add: ts_input_def)
  moreover from this(2) have "(value_col, NumCol vals) \<in> set df" by (rule map_of_SomeD)
  then have "value_col \<in> set (map fst df)" by force
  ultimately show "detect_time_series_anomalies pd df time_col value_col window threshold
              = Inl (ValueError ''window must be an integer 0 or greater'')"
    using neg by (simp add: detect_time_series_anomalies_def)
next
  assume w: "0 \<le> window \<and> (window < 2 \<or> int (df_nrows df) < window)"
  define rows where "rows = sort_values pd (ts_rows stamps vals)"
  define v where "v = map (\<lambda>r. snd (snd r)) rows"
  define z where "z = z_score v (rolling_mean (nat window) v) (rolling_std (nat window) v)"
  define res where "res =
     \<lparr> ts_anomalies = zip (map fst rows) (map (\<lambda>a. fgt (fabs a) (Fin threshold)) z),
       z_scores = zip (map fst rows) z,
       ts_rolling_mean = zip (map fst rows) (rolling_mean (nat window) v),
       ts_rolling_std = zip (map fst rows) (rolling_std (nat window) v) \<rparr>"
  from w have w0: "0 \<le> window" by simp
  have run: "detect_time_series_anomalies pd df time_col value_col window threshold
               = Inr (Some res, None)"
    unfolding res_def z_def by (rule detect_ts_returns [OF assms(1) w0 rows_def v_def])
  from sorts_ascending_length [OF assms(2), of "ts_rows stamps vals"] length_ts_rows [OF assms(1)]
  have lv: "length v = df_nrows df" by (simp add: v_def rows_def)
  have "\<forall>i < length v. rolling_mean (nat window) v ! i = NaN
                        \<or> rolling_std (nat window) v ! i = NaN"
  proof (intro allI impI)
    fix i assume i: "i < length v"
    from w show "rolling_mean (nat window) v ! i = NaN \<or> rolling_std (nat window) v ! i = NaN"
    proof (elim conjE disjE)
      assume "window < 2" "0 \<le> window"
      then have "nat window \<le> 1" by simp
      with i show ?thesis by (simp add: rolling_std_single)
    next
      assume "int (df_nrows df) < window"
      with lv have "length v < nat window" by simp
      with i show ?thesis by (simp add: rolling_mean_short)
    qed
  qed
  then have "\<forall>x \<in> set z. x = NaN"
    unfolding z_def by (rule z_score_NaN)
  then have "\<forall>p \<in> set (ts_anomalies res). \<not> snd p"
    unfolding res_def by (simp add: no_flags)
  with run show "\<exists>res. detect_time_series_anomalies pd df time_col value_col window threshold
                      = Inr (Some res, None) \<and> (\<forall>p \<in> set (ts_anomalies res). \<not> snd p)"
    by blast
qed

lemma pd_stable_sorts: "sorts_ascending pd_stable"
  by (simp add: sorts_ascending_def ascending_by_time_def pd_stable_def)


theorem window_passed_unchecked_witness:
  "ts_input pd_stable series_df ''date'' ''value''
     [Some 3, Some 1, Some 2] [Fin 6, Fin 0, Fin 3] \<and>
   sorts_ascending pd_stable \<and>
   (0::int) \<le> 5 \<and> int (df_nrows series_df) < 5 \<and>
   (\<exists>res. detect_time_series_anomalies pd_stable series_df ''date'' ''value'' 5 2
             = Inr (Some res, None) \<and>
          (\<forall>p \<in> set (ts_anomalies res). \<not> snd p))"
proof -
  have n: "int (df_nrows series_df) < 5" by (simp add: series_df_def df_nrows_def)
  from window_passed_unchecked [OF series_input pd_stable_sorts, of 5 2] n
  have "\<exists>res. detect_time_series_anomalies pd_stable series_df ''date'' ''value'' 5 2
             = Inr (Some res, None) \<and> (\<forall>p \<in> set (ts_anomalies res). \<not> snd p)"
    by simp
  with series_input pd_stable_sorts n show ?thesis by simp
qed

subsection \<open>The order of the rows\<close>









end
